theory Spec2Isabelle
  imports Complex_Main
begin

section \<open>JavaScript values used by the dashboard\<close>

subsection \<open>Numbers\<close>

text \<open>
  Every number the dashboard computes is a count, a row index or a quotient of such, so
  only the non-negative part of the IEEE-754 doubles is modelled: \<open>Fin q\<close> is the
  double whose exact value is the rational \<open>q\<close>. Arithmetic rounds to the nearest
  double, ties to the even significand, with 53 significant bits, gradual underflow
  and overflow to \<open>Infinity\<close>.
\<close>

datatype jsnum = NaN | Infinity | Fin rat

fun bit_length :: "nat \<Rightarrow> nat" where
  "bit_length n = (if n = 0 then 0 else Suc (bit_length (n div 2)))"

definition pow2 :: "int \<Rightarrow> rat" where
  "pow2 e = (if 0 \<le> e then 2 ^ nat e else 1 / 2 ^ nat (- e))"

text \<open>\<open>ilog2 q\<close> is the binary exponent of a positive rational: \<open>2^e \<le> q < 2^(e+1)\<close>.\<close>

definition ilog2 :: "rat \<Rightarrow> int" where
  "ilog2 q = (let (a, b) = quotient_of q;
                  d = int (bit_length (nat a)) - int (bit_length (nat b))
              in if pow2 d \<le> q then d else d - 1)"

definition round_ties_even :: "rat \<Rightarrow> int" where
  "round_ties_even z = (let f = \<lfloor>z\<rfloor>; r = z - of_int f in
     if r < 1 / 2 then f else if 1 / 2 < r then f + 1
     else if even f then f else f + 1)"

definition js_round :: "rat \<Rightarrow> jsnum" where
  "js_round q = (if q = 0 then Fin 0 else
     let p = max (ilog2 q - 52) (- 1074);
         v = of_int (round_ties_even (q / pow2 p)) * pow2 p
     in if pow2 1024 \<le> v then Infinity else Fin v)"

text \<open>The double for an integer value such as an array length or a JSON integer.\<close>

definition num :: "nat \<Rightarrow> jsnum" where
  "num n = js_round (of_nat n)"

fun js_add :: "jsnum \<Rightarrow> jsnum \<Rightarrow> jsnum" where
  "js_add NaN _ = NaN"
| "js_add _ NaN = NaN"
| "js_add Infinity _ = Infinity"
| "js_add _ Infinity = Infinity"
| "js_add (Fin a) (Fin b) = js_round (a + b)"

fun js_mul :: "jsnum \<Rightarrow> jsnum \<Rightarrow> jsnum" where
  "js_mul NaN _ = NaN"
| "js_mul _ NaN = NaN"
| "js_mul Infinity (Fin b) = (if b = 0 then NaN else Infinity)"
| "js_mul (Fin a) Infinity = (if a = 0 then NaN else Infinity)"
| "js_mul Infinity Infinity = Infinity"
| "js_mul (Fin a) (Fin b) = js_round (a * b)"

fun js_div :: "jsnum \<Rightarrow> jsnum \<Rightarrow> jsnum" where
  "js_div NaN _ = NaN"
| "js_div _ NaN = NaN"
| "js_div Infinity Infinity = NaN"
| "js_div Infinity (Fin b) = Infinity"
| "js_div (Fin a) Infinity = Fin 0"
| "js_div (Fin a) (Fin b) =
     (if b = 0 then (if a = 0 then NaN else Infinity) else js_round (a / b))"

text \<open>Strict equality \<open>===\<close> on numbers: \<open>NaN\<close> equals nothing, itself included.\<close>

fun js_strict_eq :: "jsnum \<Rightarrow> jsnum \<Rightarrow> bool" where
  "js_strict_eq NaN _ = False"
| "js_strict_eq _ NaN = False"
| "js_strict_eq a b = (a = b)"

subsection \<open>The environment of the page\<close>

text \<open>
  Three things the code calls are fixed by the browser and its settings rather than by
  the repository: the month of a parsed date in the local time zone, the localized
  month-and-year text of a date, and the digits \<open>Number::toString\<close> picks for a
  value that is not an integer up to \<open>2^53\<close> (shortest round-trip digits, exponent
  notation from \<open>10^21\<close>). They are parameters of the model.
\<close>

record platform =
  Date_getMonth :: "string \<Rightarrow> jsnum"
  Date_toLocaleString :: "string \<Rightarrow> string"
  Number_shortest :: "rat \<Rightarrow> string"

fun show_nat :: "nat \<Rightarrow> string" where
  "show_nat n = (if n < 10 then [''0123456789'' ! n]
                 else show_nat (n div 10) @ [''0123456789'' ! (n mod 10)])"

definition Number_toString :: "platform \<Rightarrow> jsnum \<Rightarrow> string" where
  "Number_toString P x = (case x of
       NaN \<Rightarrow> ''NaN''
     | Infinity \<Rightarrow> ''Infinity''
     | Fin q \<Rightarrow> if q = of_int \<lfloor>q\<rfloor> \<and> q \<le> 2 ^ 53 then show_nat (nat \<lfloor>q\<rfloor>)
                else Number_shortest P q)"

text \<open>
  \<open>Number.prototype.toFixed(f)\<close>: below \<open>10^21\<close> the integer \<open>n\<close> nearest to
  \<open>x * 10^f\<close> (the larger one on a tie) is printed with a point before its last
  \<open>f\<close> digits, padded with zeros on the left.
\<close>

definition toFixed :: "platform \<Rightarrow> nat \<Rightarrow> jsnum \<Rightarrow> string" where
  "toFixed P f x = (case x of
       Fin q \<Rightarrow>
         if 10 ^ 21 \<le> q then Number_toString P x
         else
           let n = nat \<lfloor>q * 10 ^ f + 1 / 2\<rfloor>;
               m = show_nat n
           in if f = 0 then m
              else
                let m' = (if length m \<le> f
                          then replicate (f + 1 - length m) (CHR ''0'') @ m else m);
                    k = length m'
                in take (k - f) m' @ ''.'' @ drop (k - f) m'
     | _ \<Rightarrow> Number_toString P x)"

subsection \<open>JSON values and \<open>JSON.stringify\<close>\<close>

datatype json =
    JNull
  | JBool bool
  | JNum nat
  | JStr string
  | JArr "json list"
  | JObj "(string \<times> json) list"

definition dquote :: char where "dquote = CHR 0x22"
definition backslash :: char where "backslash = CHR 0x5C"
definition newline :: char where "newline = CHR 0x0A"

definition quote_char :: "char \<Rightarrow> string" where
  "quote_char c =
     (if c = CHR 0x08 then [backslash, CHR ''b'']
      else if c = CHR 0x09 then [backslash, CHR ''t'']
      else if c = CHR 0x0A then [backslash, CHR ''n'']
      else if c = CHR 0x0C then [backslash, CHR ''f'']
      else if c = CHR 0x0D then [backslash, CHR ''r'']
      else if c = dquote then [backslash, dquote]
      else if c = backslash then [backslash, backslash]
      else if (of_char c :: nat) < 32
        then [backslash, CHR ''u'', CHR ''0'', CHR ''0'',
              ''0123456789abcdef'' ! (of_char c div 16),
              ''0123456789abcdef'' ! (of_char c mod 16)]
      else [c])"

definition QuoteJSONString :: "string \<Rightarrow> string" where
  "QuoteJSONString s = dquote # concat (map quote_char s) @ [dquote]"

fun join :: "string \<Rightarrow> string list \<Rightarrow> string" where
  "join sep [] = []"
| "join sep [x] = x"
| "join sep (x # y # ys) = x @ sep @ join sep (y # ys)"

text \<open>
  \<open>SerializeJSONProperty\<close>: \<open>indent\<close> is the indentation of the enclosing level and
  every nested level adds \<open>gap\<close>; with an empty gap nothing is broken into lines.
\<close>

fun serialize :: "platform \<Rightarrow> string \<Rightarrow> string \<Rightarrow> json \<Rightarrow> string" where
  "serialize P gap indent JNull = ''null''"
| "serialize P gap indent (JBool b) = (if b then ''true'' else ''false'')"
| "serialize P gap indent (JNum n) = Number_toString P (num n)"
| "serialize P gap indent (JStr s) = QuoteJSONString s"
| "serialize P gap indent (JArr xs) =
     (if xs = [] then ''[]''
      else if gap = [] then ''['' @ join '','' (map (serialize P gap (indent @ gap)) xs) @ '']''
      else ''['' @ [newline] @ (indent @ gap)
           @ join ('','' @ [newline] @ (indent @ gap))
                  (map (serialize P gap (indent @ gap)) xs)
           @ [newline] @ indent @ '']'')"
| "serialize P gap indent (JObj kvs) =
     (if kvs = [] then ''{}''
      else if gap = []
        then ''{'' @ join '',''
                  (map (\<lambda>kv. QuoteJSONString (fst kv) @ '':''
                              @ serialize P gap (indent @ gap) (snd kv)) kvs) @ ''}''
      else ''{'' @ [newline] @ (indent @ gap)
           @ join ('','' @ [newline] @ (indent @ gap))
                  (map (\<lambda>kv. QuoteJSONString (fst kv) @ '': ''
                              @ serialize P gap (indent @ gap) (snd kv)) kvs)
           @ [newline] @ indent @ ''}'')"

text \<open>\<open>JSON.stringify(value, null, space)\<close> for a number of spaces (at most ten count).\<close>

definition JSON_stringify :: "platform \<Rightarrow> json \<Rightarrow> nat \<Rightarrow> string" where
  "JSON_stringify P v space = serialize P (replicate (min 10 space) (CHR '' '')) [] v"

section \<open>The data model: \<open>types/game.ts\<close>\<close>

text \<open>
  \<open>boardState\<close> is an object with the keys \<open>0\<close> to \<open>5\<close>; \<open>currentRowIndex\<close> is
  typed \<open>1 | 2 | 3 | 4 | 5 | 6\<close> and carried as a natural number (the typing is the
  predicate \<open>row_index_typed\<close> below); \<open>status\<close> is a union of three string literals.
  The fields \<open>_id\<close> (here \<open>oid\<close>) and \<open>fetched_at\<close> are typed with classes that
  have no JSON form (\<open>ObjectId\<close>, \<open>Date\<close>); in the page they are whatever JSON the
  server sent, so they are carried as JSON values.
\<close>

record BoardState =
  row0 :: string
  row1 :: string
  row2 :: string
  row3 :: string
  row4 :: string
  row5 :: string

datatype GameStatus = WIN | FAIL | IN_PROGRESS

record GameData =
  boardState :: BoardState
  currentRowIndex :: nat
  hardMode :: bool
  status :: GameStatus

record Game =
  oid :: json
  user_id :: string
  print_date :: string
  puzzle_id :: nat
  solution :: string
  game_data :: GameData
  fetched_at :: json

definition row_index_typed :: "Game \<Rightarrow> bool" where
  "row_index_typed g = (1 \<le> currentRowIndex (game_data g) \<and> currentRowIndex (game_data g) \<le> 6)"

fun status_string :: "GameStatus \<Rightarrow> string" where
  "status_string WIN = ''WIN''"
| "status_string FAIL = ''FAIL''"
| "status_string IN_PROGRESS = ''IN_PROGRESS''"

section \<open>Summary statistics: the computed properties of \<open>App.vue\<close>\<close>

text \<open>Each computed property is a function of \<open>games.value\<close>.\<close>

definition totalGames :: "Game list \<Rightarrow> nat" where
  "totalGames gs = length gs"

definition winningGames :: "Game list \<Rightarrow> Game list" where
  "winningGames gs = filter (\<lambda>game. status (game_data game) = WIN) gs"

definition totalWins :: "Game list \<Rightarrow> nat" where
  "totalWins gs = length (winningGames gs)"

definition winPercentage :: "platform \<Rightarrow> Game list \<Rightarrow> string" where
  "winPercentage P gs =
     (if totalGames gs = 0 then ''0.00%''
      else
        let percentage = js_mul (js_div (num (totalWins gs)) (num (totalGames gs))) (num 100)
        in toFixed P 2 percentage @ ''%'')"

definition averageTurns :: "platform \<Rightarrow> Game list \<Rightarrow> string" where
  "averageTurns P gs =
     (if totalWins gs = 0 then ''N/A''
      else
        let totalTurns =
              foldl (\<lambda>sum game. js_add sum (num (currentRowIndex (game_data game))))
                    (Fin 0) (winningGames gs);
            average = js_div totalTurns (num (totalWins gs))
        in toFixed P 2 average)"

section \<open>The chart\<close>

record ChartDataset =
  label :: string
  backgroundColor :: string
  borderColor :: string
  data :: "nat list"
  tension :: rat
  printDates :: "string list"
  solutions :: "string list"

record ChartData =
  labels :: "string list"
  datasets :: "ChartDataset list"

text \<open>
  The callback of \<open>finishedGames.map\<close> reads and writes the variable \<open>lastMonth\<close> of
  the enclosing function, \<open>null\<close> at first (\<open>None\<close>); the recursion passes it along.
  A number is never strictly equal to \<open>null\<close>.
\<close>

fun month_changed :: "jsnum \<Rightarrow> jsnum option \<Rightarrow> bool" where
  "month_changed currentMonth None = True"
| "month_changed currentMonth (Some lastMonth) = (\<not> js_strict_eq currentMonth lastMonth)"

fun month_labels :: "platform \<Rightarrow> jsnum option \<Rightarrow> Game list \<Rightarrow> string list" where
  "month_labels P lastMonth [] = []"
| "month_labels P lastMonth (game # rest) =
     (let currentMonth = Date_getMonth P (print_date game)
      in if month_changed currentMonth lastMonth
         then Date_toLocaleString P (print_date game) # month_labels P (Some currentMonth) rest
         else [] # month_labels P lastMonth rest)"

definition is_finished :: "Game \<Rightarrow> bool" where
  "is_finished game = (status (game_data game) = WIN \<or> status (game_data game) = FAIL)"

definition chartData :: "platform \<Rightarrow> Game list \<Rightarrow> ChartData" where
  "chartData P gs =
     (let sortedGames = rev gs;
          finishedGames = filter is_finished sortedGames;
          allPrintDates = map print_date finishedGames;
          allSolutions = map solution finishedGames
      in \<lparr> labels = month_labels P None finishedGames,
           datasets = [
             \<lparr> label = ''Guesses'',
               backgroundColor = ''#41B883'',
               borderColor = ''#41B883'',
               data = map (\<lambda>game. if status (game_data game) = WIN
                                   then currentRowIndex (game_data game) else 7)
                          finishedGames,
               tension = 3 / 10,
               printDates = allPrintDates,
               solutions = allSolutions \<rparr> ] \<rparr>)"

text \<open>The y axis of \<open>chartOptions\<close>.\<close>

datatype tick = TickNumber nat | TickText string

record YScale =
  y_min :: nat
  y_max :: nat
  y_stepSize :: nat
  y_tick_callback :: "nat \<Rightarrow> tick"
  y_title :: string

definition chartOptions_y :: YScale where
  "chartOptions_y =
     \<lparr> y_min = 1, y_max = 7, y_stepSize = 1,
       y_tick_callback = (\<lambda>v. if v = 7 then TickText ''FAIL'' else TickNumber v),
       y_title = ''Number of Guesses'' \<rparr>"

section \<open>The games table\<close>

definition getTurns :: "Game \<Rightarrow> nat" where
  "getTurns game = currentRowIndex (game_data game)"

text \<open>The spans rendered in the Turns cell of a row, in order.\<close>

definition turns_cell :: "platform \<Rightarrow> Game \<Rightarrow> string list" where
  "turns_cell P game =
     (if status (game_data game) = WIN then [Number_toString P (num (getTurns game)) @ ''/6'']
      else if status (game_data game) = FAIL then [''X/6'']
      else [''N/A''])
     @ (if hardMode (game_data game) then [''*''] else [])"

definition getWordleUrl :: "string \<Rightarrow> string" where
  "getWordleUrl dateStr = ''https://www.nytimes.com/games/wordle/'' @ dateStr"

section \<open>The JSON export\<close>

text \<open>
  The object \<open>JSON.stringify\<close> sees for a record, its properties in the order of the
  type declaration; the integer-like keys of \<open>boardState\<close> come in ascending order.
\<close>

definition BoardState_json :: "BoardState \<Rightarrow> json" where
  "BoardState_json b =
     JObj [(''0'', JStr (row0 b)), (''1'', JStr (row1 b)), (''2'', JStr (row2 b)),
           (''3'', JStr (row3 b)), (''4'', JStr (row4 b)), (''5'', JStr (row5 b))]"

definition GameData_json :: "GameData \<Rightarrow> json" where
  "GameData_json d =
     JObj [(''boardState'', BoardState_json (boardState d)),
           (''currentRowIndex'', JNum (currentRowIndex d)),
           (''hardMode'', JBool (hardMode d)),
           (''status'', JStr (status_string (status d)))]"

definition Game_json :: "Game \<Rightarrow> json" where
  "Game_json g =
     JObj [(''_id'', oid g),
           (''user_id'', JStr (user_id g)),
           (''print_date'', JStr (print_date g)),
           (''puzzle_id'', JNum (puzzle_id g)),
           (''solution'', JStr (solution g)),
           (''game_data'', GameData_json (game_data g)),
           (''fetched_at'', fetched_at g)]"

text \<open>What \<open>downloadGames\<close> hands to the browser: a blob and the anchor it clicks.\<close>

record Download =
  blob_content :: string
  blob_type :: string
  download_name :: string

definition downloadGames :: "platform \<Rightarrow> Game list \<Rightarrow> Download" where
  "downloadGames P gs =
     (let json = JSON_stringify P (JArr (map Game_json gs)) 2
      in \<lparr> blob_content = json,
           blob_type = ''application/json'',
           download_name = ''wordle_games.json'' \<rparr>)"

section \<open>Arrays as objects: the store\<close>

text \<open>
  \<open>games.value\<close> is a reference to an array that other code can see. To tell a
  computation that changes this array from one that changes a copy, arrays of records
  live in a store, an array is its address there, \<open>filter\<close> and the spread
  \<open>[...xs]\<close> allocate a new array, and \<open>reverse\<close> overwrites the array it is
  called on. Arrays of strings and numbers made by \<open>map\<close> are new and are returned as
  values. Vue keeps the value of a computed property until \<open>games\<close> changes; here
  every access runs the getter, which allocates more often and reads and writes the
  same arrays.
\<close>

type_synonym store = "Game list list"

definition new_array :: "Game list \<Rightarrow> store \<Rightarrow> nat \<times> store" where
  "new_array xs st = (length st, st @ [xs])"

definition Array_reverse :: "nat \<Rightarrow> store \<Rightarrow> nat \<times> store" where
  "Array_reverse a st = (a, st[a := rev (st ! a)])"

definition totalGames_st :: "nat \<Rightarrow> store \<Rightarrow> nat \<times> store" where
  "totalGames_st games_ref st = (length (st ! games_ref), st)"

definition winningGames_st :: "nat \<Rightarrow> store \<Rightarrow> nat \<times> store" where
  "winningGames_st games_ref st =
     new_array (filter (\<lambda>game. status (game_data game) = WIN) (st ! games_ref)) st"

definition totalWins_st :: "nat \<Rightarrow> store \<Rightarrow> nat \<times> store" where
  "totalWins_st games_ref st =
     (let (w, st1) = winningGames_st games_ref st in (length (st1 ! w), st1))"

definition winPercentage_st :: "platform \<Rightarrow> nat \<Rightarrow> store \<Rightarrow> string \<times> store" where
  "winPercentage_st P games_ref st =
     (let (t, st1) = totalGames_st games_ref st in
      if t = 0 then (''0.00%'', st1)
      else
        let (w, st2) = totalWins_st games_ref st1;
            (t', st3) = totalGames_st games_ref st2;
            percentage = js_mul (js_div (num w) (num t')) (num 100)
        in (toFixed P 2 percentage @ ''%'', st3))"

definition averageTurns_st :: "platform \<Rightarrow> nat \<Rightarrow> store \<Rightarrow> string \<times> store" where
  "averageTurns_st P games_ref st =
     (let (n, st1) = totalWins_st games_ref st in
      if n = 0 then (''N/A'', st1)
      else
        let (w, st2) = winningGames_st games_ref st1;
            totalTurns =
              foldl (\<lambda>sum game. js_add sum (num (currentRowIndex (game_data game))))
                    (Fin 0) (st2 ! w);
            (n', st3) = totalWins_st games_ref st2;
            average = js_div totalTurns (num n')
        in (toFixed P 2 average, st3))"

definition chartData_st :: "platform \<Rightarrow> nat \<Rightarrow> store \<Rightarrow> ChartData \<times> store" where
  "chartData_st P games_ref st =
     (let (copy, st1) = new_array (st ! games_ref) st;
          (sortedGames, st2) = Array_reverse copy st1;
          (finishedGames, st3) = new_array (filter is_finished (st2 ! sortedGames)) st2;
          labels = month_labels P None (st3 ! finishedGames);
          allPrintDates = map print_date (st3 ! finishedGames);
          allSolutions = map solution (st3 ! finishedGames)
      in (\<lparr> labels = labels,
            datasets = [
              \<lparr> label = ''Guesses'',
                backgroundColor = ''#41B883'',
                borderColor = ''#41B883'',
                data = map (\<lambda>game. if status (game_data game) = WIN
                                    then currentRowIndex (game_data game) else 7)
                           (st3 ! finishedGames),
                tension = 3 / 10,
                printDates = allPrintDates,
                solutions = allSolutions \<rparr> ] \<rparr>, st3))"

definition downloadGames_st :: "platform \<Rightarrow> nat \<Rightarrow> store \<Rightarrow> Download \<times> store" where
  "downloadGames_st P games_ref st =
     (let json = JSON_stringify P (JArr (map Game_json (st ! games_ref))) 2
      in (\<lparr> blob_content = json,
            blob_type = ''application/json'',
            download_name = ''wordle_games.json'' \<rparr>, st))"

section \<open>Reactive state, \<open>fetchGames\<close> and \<open>syncData\<close>\<close>

text \<open>
  A response body is an object: a finite map from property names to values, and reading
  a property that is absent gives \<open>undefined\<close>. The refs are typed (\<open>Game[]\<close>,
  \<open>string\<close>), but an assignment from \<open>response.data\<close> is not checked when the page
  runs, so a ref holds whatever value the body has.
\<close>

datatype jsval = JSUndefined | JSNull | JSString string | JSNumber nat | JSGames "Game list"

type_synonym body = "string \<rightharpoonup> jsval"

definition get_prop :: "body \<Rightarrow> string \<Rightarrow> jsval" where
  "get_prop b k = (case b k of None \<Rightarrow> JSUndefined | Some v \<Rightarrow> v)"

text \<open>\<open>ToString\<close>, as a template literal applies it.\<close>

definition ToString :: "platform \<Rightarrow> jsval \<Rightarrow> string" where
  "ToString P v = (case v of
       JSUndefined \<Rightarrow> ''undefined''
     | JSNull \<Rightarrow> ''null''
     | JSString s \<Rightarrow> s
     | JSNumber n \<Rightarrow> Number_toString P (num n)
     | JSGames gs \<Rightarrow> join '','' (map (\<lambda>_. ''[object Object]'') gs))"

record App =
  games :: jsval
  userId :: jsval
  loading :: bool
  syncStatus :: string
  lastSynced :: jsval

definition initial_App :: App where
  "initial_App = \<lparr> games = JSGames [], userId = JSString [], loading = True,
                    syncStatus = [], lastSynced = JSString [] \<rparr>"

text \<open>
  An awaited request settles with \<open>Inr\<close> the body of the response, an object, or with
  \<open>Inl\<close> the message of the error that the \<open>catch\<close> block receives (axios throws on
  a network error and on a status outside 2xx). Each async function is split at its
  \<open>await\<close>: the part that runs when it is called, and the part that runs when the
  request settles.
\<close>

type_synonym response = "string + body"

definition fetchGames_begin :: "App \<Rightarrow> App" where
  "fetchGames_begin s = s\<lparr> loading := True \<rparr>"

definition fetchGames_settle :: "response \<Rightarrow> App \<Rightarrow> App" where
  "fetchGames_settle r s =
     (case r of
        Inr b \<Rightarrow> s\<lparr> games := get_prop b ''games'',
                    lastSynced := get_prop b ''last_synced_at'',
                    userId := get_prop b ''user_id'',
                    loading := False \<rparr>
      | Inl error \<Rightarrow> s\<lparr> loading := False \<rparr>)"

definition fetchGames :: "response \<Rightarrow> App \<Rightarrow> App" where
  "fetchGames r s = fetchGames_settle r (fetchGames_begin s)"

definition syncData_begin :: "App \<Rightarrow> App" where
  "syncData_begin s = s\<lparr> syncStatus := ''Syncing...'' \<rparr>"

text \<open>The second component tells whether \<open>fetchGames\<close> is called next.\<close>

definition syncData_settle :: "platform \<Rightarrow> response \<Rightarrow> App \<Rightarrow> App \<times> bool" where
  "syncData_settle P r s =
     (case r of
        Inr b \<Rightarrow>
          if get_prop b ''status'' = JSString ''already_up_to_date''
            then (s\<lparr> syncStatus := ''Archive already up to date!'' \<rparr>, False)
          else if get_prop b ''status'' = JSString ''no_ids_found''
            then (s\<lparr> syncStatus := ''No puzzle IDs found.'' \<rparr>, False)
          else if get_prop b ''added'' = JSNumber 0
            then (s\<lparr> syncStatus := ''Sync executed, no new puzzles added.'' \<rparr>, False)
          else (s\<lparr> syncStatus := ''Sync successful! Added '' @ ToString P (get_prop b ''added'')
                                   @ '' new puzzle records. Fetching new data...'' \<rparr>, True)
      | Inl message \<Rightarrow> (s\<lparr> syncStatus := ''Sync failed: '' @ message \<rparr>, False))"


text \<open>The sync button and the message under it, as the template renders them.\<close>

definition sync_button_disabled :: "App \<Rightarrow> bool" where
  "sync_button_disabled s = (syncStatus s = ''Syncing...'')"

definition sync_button_text :: "App \<Rightarrow> string" where
  "sync_button_text s = (if syncStatus s = ''Syncing...'' then ''Syncing...''
                         else ''Sync Archive Data'')"

definition sync_message :: "App \<Rightarrow> string option" where
  "sync_message s = (if syncStatus s \<noteq> [] \<and> syncStatus s \<noteq> ''Syncing...''
                     then Some (syncStatus s) else None)"

subsection \<open>The page as a transition system\<close>

text \<open>
  The page runs one handler at a time. The events are: the component is mounted, the
  user clicks the sync button (a disabled button dispatches no click), and a request
  that is in flight settles. The page is kept together with the number of requests of
  each kind that are in flight.
\<close>

record Page =
  app :: App
  sync_in_flight :: nat
  fetch_in_flight :: nat

datatype event =
    Mounted
  | ClickSync
  | SyncSettled response
  | FetchSettled response

definition initial_Page :: Page where
  "initial_Page = \<lparr> app = initial_App, sync_in_flight = 0, fetch_in_flight = 0 \<rparr>"

fun step :: "platform \<Rightarrow> Page \<Rightarrow> event \<Rightarrow> Page" where
  "step P w Mounted =
     w\<lparr> app := fetchGames_begin (app w), fetch_in_flight := Suc (fetch_in_flight w) \<rparr>"
| "step P w ClickSync =
     (if sync_button_disabled (app w) then w
      else w\<lparr> app := syncData_begin (app w), sync_in_flight := Suc (sync_in_flight w) \<rparr>)"
| "step P w (SyncSettled r) =
     (if sync_in_flight w = 0 then w
      else
        let (s1, refetch) = syncData_settle P r (app w)
        in if refetch
           then w\<lparr> app := fetchGames_begin s1,
                   sync_in_flight := sync_in_flight w - 1,
                   fetch_in_flight := Suc (fetch_in_flight w) \<rparr>
           else w\<lparr> app := s1, sync_in_flight := sync_in_flight w - 1 \<rparr>)"
| "step P w (FetchSettled r) =
     (if fetch_in_flight w = 0 then w
      else w\<lparr> app := fetchGames_settle r (app w),
              fetch_in_flight := fetch_in_flight w - 1 \<rparr>)"

definition run :: "platform \<Rightarrow> event list \<Rightarrow> Page" where
  "run P evs = foldl (step P) initial_Page evs"

section \<open>Notions the statements use\<close>

text \<open>
  The shape of a decimal string, the counts and sums of the specification's formulas,
  the games in the order charted, what a game adds to the chart, two records that
  differ in an unread field only, and a store that kept its arrays.
\<close>

definition is_digit :: "char \<Rightarrow> bool" where
  "is_digit c = (c \<in> set ''0123456789'')"

definition fixed_decimal :: "nat \<Rightarrow> string \<Rightarrow> bool" where
  "fixed_decimal f s =
     (f + 2 \<le> length s \<and> s ! (length s - f - 1) = CHR ''.''
      \<and> list_all is_digit (take (length s - f - 1) s)
      \<and> list_all is_digit (drop (length s - f) s))"

definition wins_count :: "Game list \<Rightarrow> nat" where
  "wins_count gs = count_list (map (\<lambda>g. status (game_data g)) gs) WIN"

definition wins_turns :: "Game list \<Rightarrow> nat" where
  "wins_turns gs =
     (\<Sum>g\<leftarrow>gs. if status (game_data g) = WIN then currentRowIndex (game_data g) else 0)"






fun chart_points_of :: "Game \<Rightarrow> nat list" where
  "chart_points_of g = (case status (game_data g) of
       WIN \<Rightarrow> [currentRowIndex (game_data g)]
     | FAIL \<Rightarrow> [7]
     | IN_PROGRESS \<Rightarrow> [])"

definition differs_in_progress_row_only :: "Game \<Rightarrow> Game \<Rightarrow> bool" where
  "differs_in_progress_row_only g g' =
     (if status (game_data g) = IN_PROGRESS
      then g' = g\<lparr> game_data := (game_data g)\<lparr> currentRowIndex := currentRowIndex (game_data g') \<rparr> \<rparr>
      else g' = g)"

definition old_arrays_kept :: "store \<Rightarrow> store \<Rightarrow> bool" where
  "old_arrays_kept st st' = (take (length st) st' = st)"

section \<open>An environment and data for examples\<close>

text \<open>
  One environment the page can run in: UTC, the \<open>en-US\<close> locale, and a date parser
  that takes calendar dates \<open>YYYY-MM-DD\<close> and nothing else. The examples print
  integers up to \<open>2^53\<close> only, so its \<open>Number_shortest\<close> is never asked.
\<close>

fun digits_value :: "nat \<Rightarrow> string \<Rightarrow> nat option" where
  "digits_value v [] = Some v"
| "digits_value v (c # cs) =
     (let d = (of_char c :: nat) in
      if 48 \<le> d \<and> d \<le> 57 then digits_value (10 * v + (d - 48)) cs else None)"

definition days_in_month :: "nat \<Rightarrow> nat \<Rightarrow> nat" where
  "days_in_month y m =
     (if m = 2 then (if y mod 4 = 0 \<and> (y mod 100 \<noteq> 0 \<or> y mod 400 = 0) then 29 else 28)
      else if m = 4 \<or> m = 6 \<or> m = 9 \<or> m = 11 then 30 else 31)"

definition parse_iso_date :: "string \<Rightarrow> (nat \<times> nat \<times> nat) option" where
  "parse_iso_date s =
     (if length s = 10 \<and> s ! 4 = CHR ''-'' \<and> s ! 7 = CHR ''-''
      then (case (digits_value 0 (take 4 s), digits_value 0 (take 2 (drop 5 s)),
                  digits_value 0 (drop 8 s)) of
              (Some y, Some m, Some d) \<Rightarrow>
                if 1 \<le> m \<and> m \<le> 12 \<and> 1 \<le> d \<and> d \<le> days_in_month y m
                then Some (y, m, d) else None
            | _ \<Rightarrow> None)
      else None)"

definition example_platform :: platform where
  "example_platform =
     \<lparr> Date_getMonth = (\<lambda>s. case parse_iso_date s of
                               None \<Rightarrow> NaN
                             | Some (y, m, d) \<Rightarrow> Fin (of_nat (m - 1))),
       Date_toLocaleString = (\<lambda>s. case parse_iso_date s of
                               None \<Rightarrow> ''Invalid Date''
                             | Some (y, m, d) \<Rightarrow>
                                 [''Jan'', ''Feb'', ''Mar'', ''Apr'', ''May'', ''Jun'',
                                  ''Jul'', ''Aug'', ''Sep'', ''Oct'', ''Nov'', ''Dec''] ! (m - 1)
                                 @ '' '' @ show_nat y),
       Number_shortest = (\<lambda>q. []) \<rparr>"

definition example_game :: "string \<Rightarrow> GameStatus \<Rightarrow> nat \<Rightarrow> Game" where
  "example_game d st k =
     \<lparr> oid = JStr ''65e2f0a1'', user_id = ''u1'', print_date = d, puzzle_id = 987,
       solution = ''crane'',
       game_data = \<lparr> boardState = \<lparr> row0 = ''slate'', row1 = ''crane'', row2 = [],
                                    row3 = [], row4 = [], row5 = [] \<rparr>,
                     currentRowIndex = k, hardMode = False, status = st \<rparr>,
       fetched_at = JStr ''2024-03-02T08:00:00Z'' \<rparr>"

definition example_games :: "Game list" where
  "example_games =
     [example_game ''2024-03-02'' WIN 4,
      example_game ''2024-03-01'' IN_PROGRESS 2,
      example_game ''2024-02-29'' FAIL 6,
      example_game ''2024-02-28'' WIN 3,
      example_game ''2024-01-31'' WIN 5,
      example_game ''2024-01-30'' WIN 2]"

section \<open>Rounding\<close>

lemma bit_length_bounds:
  "0 < n \<Longrightarrow> 2 ^ (bit_length n - 1) \<le> n \<and> n < 2 ^ bit_length n"
proof (induction n rule: bit_length.induct)
  case (1 n)
  show ?case
  proof (cases "n div 2 = 0")
    case True
    with 1(2) have "n = 1" by (simp add: div_eq_0_iff)
    then show ?thesis by simp
  next
    case False
    then have pos: "0 < n div 2" by simp
    from 1(1)[OF _ pos] 1(2)
    have ih: "2 ^ (bit_length (n div 2) - 1) \<le> n div 2" "n div 2 < 2 ^ bit_length (n div 2)"
      by auto
    have bl: "bit_length n = Suc (bit_length (n div 2))" using 1(2) by simp
    have pos2: "0 < bit_length (n div 2)" using pos by (simp)
    have "2 ^ (bit_length n - 1) = 2 * 2 ^ (bit_length (n div 2) - 1)"
      using bl pos2 by (cases "bit_length (n div 2)") auto
    also have "\<dots> \<le> 2 * (n div 2)" using ih(1) by simp
    also have "\<dots> \<le> n" by simp
    finally have lo: "2 ^ (bit_length n - 1) \<le> n" .
    have "n < 2 * (n div 2) + 2" by presburger
    also have "\<dots> \<le> 2 * 2 ^ bit_length (n div 2)" using ih(2) by simp
    finally have hi: "n < 2 ^ bit_length n" using bl by simp
    from lo hi show ?thesis by simp
  qed
qed

lemma pow2_powi: "pow2 e = 2 powi e"
  by (simp add: pow2_def power_int_def field_simps)

lemma pow2_pos: "0 < pow2 e"
  by (simp add: pow2_powi)

lemma pow2_add: "pow2 (a + b) = pow2 a * pow2 b"
  by (simp add: pow2_powi power_int_add)

lemma pow2_mono: "a \<le> b \<Longrightarrow> pow2 a \<le> pow2 b"
  by (simp add: pow2_powi power_int_increasing)

lemma pow2_nat: "pow2 (int k) = 2 ^ k"
  by (simp add: pow2_def)

lemma ilog2_lower:
  assumes "0 < q"
  shows "pow2 (ilog2 q) \<le> q"
proof -
  obtain a b where ab: "quotient_of q = (a, b)" by (cases "quotient_of q")
  have b: "0 < b" using ab quotient_of_denom_pos by blast
  have q: "q = of_int a / of_int b" using ab quotient_of_div by blast
  have a: "0 < a" using assms b q by (simp add: zero_less_divide_iff)
  define la lb where "la = bit_length (nat a)" and "lb = bit_length (nat b)"
  have A: "2 ^ (la - 1) \<le> nat a" using bit_length_bounds[of "nat a"] a by (simp add: la_def)
  have B: "nat b < 2 ^ lb" using bit_length_bounds[of "nat b"] b by (simp add: lb_def)
  have lapos: "0 < la" using a by (simp add: la_def)
  have "pow2 (int la - int lb - 1) \<le> q"
  proof -
    have e: "int la - int lb - 1 = int (la - 1) + (- int lb)" using lapos by simp
    have "pow2 (int la - int lb - 1) = 2 ^ (la - 1) / 2 ^ lb"
      unfolding e pow2_add by (simp add: pow2_def)
    also have "\<dots> \<le> of_int a / 2 ^ lb"
    proof -
      have "(2::rat) ^ (la - 1) \<le> of_nat (nat a)" using A by (metis of_nat_le_iff of_nat_numeral of_nat_power)
      then have "(2::rat) ^ (la - 1) \<le> of_int a" using a by simp
      then show ?thesis by (simp add: divide_right_mono)
    qed
    also have "\<dots> \<le> of_int a / of_int b"
    proof -
      have "of_nat (nat b) < (2::rat) ^ lb" using B by (metis of_nat_less_iff of_nat_numeral of_nat_power)
      then have "of_int b \<le> (2::rat) ^ lb" using b by simp
      then show ?thesis using a b by (simp add: frac_le)
    qed
    finally show ?thesis using q by simp
  qed
  then show ?thesis
    unfolding ilog2_def ab la_def lb_def by (simp add: Let_def)
qed

lemma round_ties_even_of_int: "round_ties_even (of_int k) = k"
  by (simp add: round_ties_even_def)

lemma round_ties_even_upper: "of_int (round_ties_even z) \<le> z + 1 / 2"
  unfolding round_ties_even_def Let_def
  by (auto simp: not_less) linarith+

lemma round_ties_even_nonneg: "0 \<le> z \<Longrightarrow> 0 \<le> round_ties_even z"
  unfolding round_ties_even_def Let_def
  by (auto simp: not_less)

lemma js_round_exact:
  assumes "n < 2 ^ 53"
  shows "js_round (of_nat n) = Fin (of_nat n)"
proof (cases "n = 0")
  case True
  then show ?thesis by (simp add: js_round_def)
next
  case False
  define q :: rat where "q = of_nat n"
  have qpos: "0 < q" using False by (simp add: q_def)
  have qlt: "q < 2 ^ 53" using assms unfolding q_def
    by (metis of_nat_less_iff of_nat_numeral of_nat_power)
  have "pow2 (ilog2 q) < pow2 53"
    using ilog2_lower[OF qpos] qlt pow2_nat[of 53] by simp
  then have e: "ilog2 q \<le> 52"
    using pow2_mono[of 53 "ilog2 q"] by (cases "ilog2 q \<le> 52") auto
  define p where "p = max (ilog2 q - 52) (- 1074)"
  have p: "p \<le> 0" using e by (simp add: p_def)
  define k where "k = nat (- p)"
  have pk: "pow2 p = 1 / 2 ^ k" using p by (auto simp: pow2_def k_def)
  have "q / pow2 p = of_int (int n * 2 ^ k)" by (simp add: pk q_def)
  then have r: "round_ties_even (q / pow2 p) = int n * 2 ^ k"
    using round_ties_even_of_int by metis
  have v: "of_int (round_ties_even (q / pow2 p)) * pow2 p = q"
    unfolding r by (simp add: pk q_def)
  have big: "\<not> pow2 1024 \<le> q"
  proof -
    have "pow2 53 \<le> pow2 1024" by (rule pow2_mono) simp
    with qlt pow2_nat[of 53] show ?thesis by simp
  qed
  have "js_round q = Fin q"
    using qpos big v unfolding js_round_def p_def[symmetric] Let_def by simp
  then show ?thesis by (simp add: q_def)
qed

lemma js_round_bound:
  assumes "0 \<le> q" and "q \<le> B" and "1 \<le> B" and "2 * B < pow2 1024"
  shows "\<exists>v. js_round q = Fin v \<and> 0 \<le> v \<and> v \<le> 2 * B"
proof (cases "q = 0")
  case True
  then show ?thesis using assms by (simp add: js_round_def)
next
  case False
  then have qpos: "0 < q" using assms(1) by simp
  define p where "p = max (ilog2 q - 52) (- 1074)"
  define v where "v = of_int (round_ties_even (q / pow2 p)) * pow2 p"
  have pp: "0 < pow2 p" by (rule pow2_pos)
  have pB: "pow2 p \<le> B"
  proof (cases "ilog2 q - 52 \<le> - 1074")
    case True
    then have "p = - 1074" by (simp add: p_def)
    then have "pow2 p \<le> pow2 0" using pow2_mono[of "- 1074" 0] by simp
    then show ?thesis using assms(3) by (simp add: pow2_def)
  next
    case False
    then have "p = ilog2 q - 52" by (simp add: p_def)
    then have "pow2 p \<le> pow2 (ilog2 q)" using pow2_mono[of "ilog2 q - 52" "ilog2 q"] by simp
    then show ?thesis using ilog2_lower[OF qpos] assms(2) by linarith
  qed
  have "of_int (round_ties_even (q / pow2 p)) \<le> q / pow2 p + 1 / 2"
    by (rule round_ties_even_upper)
  then have "v \<le> (q / pow2 p + 1 / 2) * pow2 p"
    unfolding v_def using pp by (simp add: mult_right_mono)
  also have "\<dots> = q + pow2 p / 2" using pp by (simp add: field_simps)
  also have "\<dots> \<le> 2 * B" using pB assms(2,3) by linarith
  finally have vB: "v \<le> 2 * B" .
  have "0 \<le> q / pow2 p" using qpos pp by simp
  then have "0 \<le> round_ties_even (q / pow2 p)" by (rule round_ties_even_nonneg)
  then have v0: "0 \<le> v" unfolding v_def using pp by simp
  have "\<not> pow2 1024 \<le> v" using vB assms(4) by linarith
  then have "js_round q = Fin v"
    using False unfolding js_round_def p_def[symmetric] Let_def v_def[symmetric] by simp
  then show ?thesis using v0 vB by blast
qed

lemma num_exact: "n < 2 ^ 53 \<Longrightarrow> num n = Fin (of_nat n)"
  by (simp add: num_def js_round_exact)

lemma pow2_less_cancel: "pow2 a < pow2 b \<Longrightarrow> a < b"
  using pow2_mono[of b a] by (cases "a < b") auto

lemma pow2_neg_nat: "pow2 (- int k) = 1 / 2 ^ k"
  by (simp add: pow2_powi power_int_minus field_simps)

lemma ilog2_upper:
  assumes "0 < q"
  shows "q < pow2 (ilog2 q + 1)"
proof -
  obtain a b where ab: "quotient_of q = (a, b)" by (cases "quotient_of q")
  have b: "0 < b" using ab quotient_of_denom_pos by blast
  have q: "q = of_int a / of_int b" using ab quotient_of_div by blast
  have a: "0 < a" using assms b q by (simp add: zero_less_divide_iff)
  define la lb where "la = bit_length (nat a)" and "lb = bit_length (nat b)"
  have A: "nat a < 2 ^ la" using bit_length_bounds[of "nat a"] a by (simp add: la_def)
  have B: "2 ^ (lb - 1) \<le> nat b" using bit_length_bounds[of "nat b"] b by (simp add: lb_def)
  have lbpos: "0 < lb" using b by (simp add: lb_def)
  have up: "q < pow2 (int la - int lb + 1)"
  proof -
    have e: "int la - int lb + 1 = int la + (- int (lb - 1))" using lbpos by simp
    have A': "of_int a < (2::rat) ^ la"
    proof -
      have "of_nat (nat a) < (2::rat) ^ la" using A by (metis of_nat_less_iff of_nat_numeral of_nat_power)
      then show ?thesis using a by simp
    qed
    have B': "(2::rat) ^ (lb - 1) \<le> of_int b"
    proof -
      have "(2::rat) ^ (lb - 1) \<le> of_nat (nat b)" using B by (metis of_nat_le_iff of_nat_numeral of_nat_power)
      then show ?thesis using b by simp
    qed
    have "q < 2 ^ la / of_int b" unfolding q using A' b by (simp add: divide_strict_right_mono)
    also have "\<dots> \<le> 2 ^ la / 2 ^ (lb - 1)" using B' by (simp add: frac_le)
    also have "\<dots> = pow2 (int la - int lb + 1)"
      unfolding e pow2_add by (simp add: pow2_nat pow2_neg_nat)
    finally show ?thesis .
  qed
  show ?thesis
  proof (cases "pow2 (int la - int lb) \<le> q")
    case True
    then have "ilog2 q = int la - int lb"
      unfolding ilog2_def ab la_def lb_def by (simp add: Let_def)
    then show ?thesis using up by simp
  next
    case False
    then have "ilog2 q = int la - int lb - 1"
      unfolding ilog2_def ab la_def lb_def by (simp add: Let_def)
    then show ?thesis using False by simp
  qed
qed

lemma ilog2_unique:
  assumes "pow2 e \<le> q" and "q < pow2 (e + 1)"
  shows "ilog2 q = e"
proof -
  have qpos: "0 < q" using assms(1) pow2_pos[of e] by linarith
  have "pow2 (ilog2 q) < pow2 (e + 1)" using ilog2_lower[OF qpos] assms(2) by linarith
  then have 1: "ilog2 q < e + 1" by (rule pow2_less_cancel)
  have "pow2 e < pow2 (ilog2 q + 1)" using ilog2_upper[OF qpos] assms(1) by linarith
  then have 2: "e < ilog2 q + 1" by (rule pow2_less_cancel)
  from 1 2 show ?thesis by simp
qed

lemma round_ties_even_eval:
  assumes "2 * of_int k - 1 < 2 * z" and "2 * z < 2 * of_int k + 1"
  shows "round_ties_even z = k"
proof (cases "of_int k \<le> z")
  case True
  then have f: "\<lfloor>z\<rfloor> = k" using assms(2) by (simp add: floor_unique)
  show ?thesis unfolding round_ties_even_def Let_def f using assms(2) by simp
next
  case False
  then have f: "\<lfloor>z\<rfloor> = k - 1" using assms(1) by (simp add: floor_unique)
  show ?thesis unfolding round_ties_even_def Let_def f using assms(1) False by simp
qed

lemma js_round_eval:
  assumes "pow2 e \<le> q" and "q < pow2 (e + 1)"
    and "p = max (e - 52) (- 1074)"
    and "2 * of_int n - 1 < 2 * (q / pow2 p)" and "2 * (q / pow2 p) < 2 * of_int n + 1"
    and "of_int n * pow2 p < pow2 1024"
  shows "js_round q = Fin (of_int n * pow2 p)"
proof -
  have qpos: "0 < q" using assms(1) pow2_pos[of e] by linarith
  have e: "ilog2 q = e" by (rule ilog2_unique[OF assms(1,2)])
  have r: "round_ties_even (q / pow2 p) = n" by (rule round_ties_even_eval[OF assms(4,5)])
  show ?thesis
    unfolding js_round_def e assms(3)[symmetric] Let_def r using qpos assms(6) by simp
qed

section \<open>Printing numbers\<close>

lemma digit_nth: "d < 10 \<Longrightarrow> is_digit (''0123456789'' ! d)"
  unfolding is_digit_def by (rule nth_mem) simp

lemma show_nat_digits: "list_all is_digit (show_nat n) \<and> show_nat n \<noteq> []"
proof (induction n rule: show_nat.induct)
  case (1 n)
  show ?case
  proof (cases "n < 10")
    case True
    then show ?thesis using digit_nth[of n] by (subst show_nat.simps, subst show_nat.simps) simp
  next
    case False
    with 1 have ih: "list_all is_digit (show_nat (n div 10))" by simp
    have "is_digit (''0123456789'' ! (n mod 10))" by (rule digit_nth) simp
    with ih False show ?thesis
      by (subst show_nat.simps, subst show_nat.simps) simp
  qed
qed

lemma fixed_decimal_append:
  assumes "list_all is_digit a" and "list_all is_digit b" and "a \<noteq> []"
  shows "fixed_decimal (length b) (a @ CHR ''.'' # b)"
proof -
  have i1: "length (a @ CHR ''.'' # b) - length b - 1 = length a" by simp
  have i2: "length (a @ CHR ''.'' # b) - length b = Suc (length a)" by simp
  have len: "length b + 2 \<le> length (a @ CHR ''.'' # b)"
    using assms(3) by (cases a) simp_all
  show ?thesis
    unfolding fixed_decimal_def i1 i2 using assms(1,2) len by simp
qed

lemma toFixed_fixed_decimal:
  assumes "0 \<le> q" and "q < 10 ^ 21" and "0 < f"
  shows "fixed_decimal f (toFixed P f (Fin q))"
proof -
  define m where "m = show_nat (nat \<lfloor>q * 10 ^ f + 1 / 2\<rfloor>)"
  define m' where "m' = (if length m \<le> f then replicate (f + 1 - length m) (CHR ''0'') @ m else m)"
  have dm: "list_all is_digit m" using show_nat_digits by (simp add: m_def)
  have z: "is_digit (CHR ''0'')" by (simp add: is_digit_def)
  have dm': "list_all is_digit m'"
  proof (cases "length m \<le> f")
    case True
    then have "m' = replicate (f + 1 - length m) (CHR ''0'') @ m" by (simp add: m'_def)
    then show ?thesis using dm z by (auto simp: list_all_iff)
  next
    case False
    then show ?thesis using dm by (simp add: m'_def)
  qed
  have lm': "f < length m'" by (auto simp: m'_def)
  let ?a = "take (length m' - f) m'" and ?b = "drop (length m' - f) m'"
  have da: "list_all is_digit ?a" using dm' unfolding list_all_iff by (meson in_set_takeD)
  have db: "list_all is_digit ?b" using dm' unfolding list_all_iff by (meson in_set_dropD)
  have lb: "length ?b = f" using lm' by simp
  have an: "?a \<noteq> []" using lm' by auto
  have nb: "\<not> (10::rat) ^ 21 \<le> q" using assms(2) by simp
  have "toFixed P f (Fin q) = ?a @ ''.'' @ ?b"
    unfolding toFixed_def jsnum.case if_not_P[OF nb] Let_def m_def[symmetric] m'_def[symmetric]
    using assms(3) by simp
  then have "toFixed P f (Fin q) = ?a @ CHR ''.'' # ?b" by simp
  then show ?thesis using fixed_decimal_append[OF da db an] lb by simp
qed

lemma toFixed_eval:
  assumes "q < 10 ^ 21" and "of_nat n \<le> q * 100 + 1 / 2" and "q * 100 + 1 / 2 < of_nat n + 1"
    and "show_nat n = m" and "2 < length m"
  shows "toFixed P 2 (Fin q) = take (length m - 2) m @ ''.'' @ drop (length m - 2) m"
proof -
  have "\<lfloor>q * 100 + 1 / 2\<rfloor> = int n"
    using assms(2,3) by (intro floor_unique) simp_all
  then have f: "nat \<lfloor>q * 10 ^ 2 + 1 / 2\<rfloor> = n" by simp
  have nb: "\<not> (10::rat) ^ 21 \<le> q" using assms(1) by simp
  show ?thesis
    unfolding toFixed_def jsnum.case if_not_P[OF nb] Let_def f assms(4)
    using assms(5) by simp
qed

section \<open>Facts about the example data\<close>

lemma example_games_typed:
  "\<forall>g\<in>set example_games. status (game_data g) = WIN \<longrightarrow> row_index_typed g"
  by (simp add: example_games_def example_game_def row_index_typed_def)



lemma example_dates_year_apart:
  "parse_iso_date ''2024-01-10'' = Some (2024, 1, 10)"
  "parse_iso_date ''2023-01-15'' = Some (2023, 1, 15)"
  by (simp_all add: parse_iso_date_def days_in_month_def Let_def)

text \<open>
  The months compared are month numbers: of two finished games in a row that were
  played in January of two different years, the second gets no label.
\<close>

lemma same_month_number_next_year:
  "labels (chartData example_platform
       [example_game ''2024-01-10'' WIN 3, example_game ''2023-01-15'' WIN 4])
     = [''Jan 2023'', []]"
  by (simp add: chartData_def is_finished_def example_game_def example_platform_def
      example_dates_year_apart Let_def)

section \<open>The summary statistics\<close>

lemma foldl_turns_exact:
  "a + sum_list (map (\<lambda>g. currentRowIndex (game_data g)) xs) < 2 ^ 53 \<Longrightarrow>
   foldl (\<lambda>sum game. js_add sum (num (currentRowIndex (game_data game)))) (Fin (of_nat a)) xs
     = Fin (of_nat (a + sum_list (map (\<lambda>g. currentRowIndex (game_data g)) xs)))"
proof (induction xs arbitrary: a)
  case Nil
  then show ?case by simp
next
  case (Cons x xs)
  let ?c = "currentRowIndex (game_data x)"
  have c: "?c < 2 ^ 53" and ac: "a + ?c < 2 ^ 53" using Cons.prems by simp_all
  have "js_add (Fin (of_nat a)) (num ?c) = js_round (of_nat (a + ?c))"
    by (simp add: num_exact[OF c])
  also have "\<dots> = Fin (of_nat (a + ?c))" by (rule js_round_exact[OF ac])
  finally have s: "js_add (Fin (of_nat a)) (num ?c) = Fin (of_nat (a + ?c))" .
  have "a + ?c + sum_list (map (\<lambda>g. currentRowIndex (game_data g)) xs) < 2 ^ 53"
    using Cons.prems by simp
  from Cons.IH[OF this] show ?case by (simp add: s add.assoc)
qed

lemma totalWins_count: "totalWins gs = wins_count gs"
  unfolding totalWins_def winningGames_def wins_count_def
  by (induction gs) auto

lemma winning_turns_sum:
  "sum_list (map (\<lambda>g. currentRowIndex (game_data g)) (winningGames gs)) = wins_turns gs"
  unfolding winningGames_def wins_turns_def
  by (induction gs) auto

lemma totalWins_le: "totalWins gs \<le> totalGames gs"
  by (simp add: totalWins_def winningGames_def totalGames_def)

lemma averageTurns_exact:
  assumes "totalWins gs \<noteq> 0" and "wins_turns gs < 2 ^ 53"
  shows "averageTurns P gs
           = toFixed P 2 (js_div (Fin (of_nat (wins_turns gs))) (num (totalWins gs)))"
proof -
  have "0 + sum_list (map (\<lambda>g. currentRowIndex (game_data g)) (winningGames gs)) < 2 ^ 53"
    using assms(2) by (simp add: winning_turns_sum)
  from foldl_turns_exact[OF this]
  have "foldl (\<lambda>sum game. js_add sum (num (currentRowIndex (game_data game)))) (Fin 0)
          (winningGames gs) = Fin (of_nat (wins_turns gs))"
    by (simp add: winning_turns_sum)
  then show ?thesis using assms(1) by (simp add: averageTurns_def Let_def)
qed

lemma typed_turns_bound:
  "\<forall>g\<in>set gs. status (game_data g) = WIN \<longrightarrow> row_index_typed g \<Longrightarrow>
   wins_count gs \<le> wins_turns gs \<and> wins_turns gs \<le> 6 * wins_count gs"
  unfolding wins_turns_def wins_count_def row_index_typed_def
  by (induction gs) auto

lemma wins_count_le_length: "wins_count gs \<le> length gs"
  using totalWins_le[of gs] by (simp add: totalWins_count totalGames_def)

lemma nan_percentage:
  "toFixed P 2 (js_mul (js_div (num 0) (num 0)) (num 100)) @ ''%'' = ''NaN%''"
  by (simp add: num_def js_round_def toFixed_def Number_toString_def)

lemma nan_average: "toFixed P 2 (js_div (Fin 0) (num 0)) = ''NaN''"
  by (simp add: num_def js_round_def toFixed_def Number_toString_def)

lemma pow2_1024_big: "(10::rat) ^ 21 < pow2 1024"
  by (simp add: pow2_def)

lemma winPercentage_decimal:
  assumes "gs \<noteq> []" and "length gs < 2 ^ 32"
  shows "\<exists>s. winPercentage P gs = s @ ''%'' \<and> fixed_decimal 2 s"
proof -
  let ?w = "totalWins gs" and ?t = "totalGames gs"
  have t0: "?t \<noteq> 0" using assms(1) by (simp add: totalGames_def)
  have tl: "?t < 2 ^ 53" using assms(2) by (simp add: totalGames_def)
  have wl: "?w < 2 ^ 53" using totalWins_le[of gs] tl by linarith
  have wt: "(of_nat ?w :: rat) / of_nat ?t \<le> 1" using totalWins_le[of gs] t0 by simp
  have d: "js_div (num ?w) (num ?t) = js_round (of_nat ?w / of_nat ?t)"
    using t0 by (simp add: num_exact[OF wl] num_exact[OF tl])
  obtain v where v: "js_round (of_nat ?w / of_nat ?t) = Fin v" "0 \<le> v" "v \<le> 2 * 1"
    using js_round_bound[of "of_nat ?w / of_nat ?t" 1] wt pow2_1024_big by auto
  have h: "num 100 = Fin 100" using num_exact[of 100] by simp
  have m: "js_mul (js_div (num ?w) (num ?t)) (num 100) = js_round (v * 100)"
    by (simp add: d v(1) h)
  obtain u where u: "js_round (v * 100) = Fin u" "0 \<le> u" "u \<le> 2 * 200"
    using js_round_bound[of "v * 100" 200] v(2,3) pow2_1024_big by auto
  have "fixed_decimal 2 (toFixed P 2 (Fin u))"
    by (rule toFixed_fixed_decimal) (use u in auto)
  moreover have "winPercentage P gs = toFixed P 2 (Fin u) @ ''%''"
    using t0 by (simp add: winPercentage_def Let_def m u(1))
  ultimately show ?thesis by blast
qed

lemma averageTurns_decimal:
  assumes "totalWins gs \<noteq> 0" and "length gs < 2 ^ 32"
    and "\<forall>g\<in>set gs. status (game_data g) = WIN \<longrightarrow> row_index_typed g"
  shows "fixed_decimal 2 (averageTurns P gs)"
proof -
  let ?n = "wins_count gs" and ?s = "wins_turns gs"
  have n0: "?n \<noteq> 0" using assms(1) by (simp add: totalWins_count)
  have nl: "?n < 2 ^ 32" using wins_count_le_length[of gs] assms(2) by linarith
  have sb: "?s \<le> 6 * ?n" using typed_turns_bound[OF assms(3)] by simp
  have sl: "?s < 2 ^ 53" using sb nl by simp
  have nl': "?n < 2 ^ 53" using nl by simp
  have q: "(of_nat ?s :: rat) / of_nat ?n \<le> 6"
  proof -
    have "(of_nat ?s :: rat) \<le> of_nat (6 * ?n)" using sb by (simp only: of_nat_le_iff)
    then show ?thesis using n0 by (simp add: divide_le_eq)
  qed
  have "averageTurns P gs = toFixed P 2 (js_div (Fin (of_nat ?s)) (num ?n))"
    using averageTurns_exact[OF assms(1) sl] by (simp add: totalWins_count)
  also have "\<dots> = toFixed P 2 (js_round (of_nat ?s / of_nat ?n))"
    using n0 by (simp add: num_exact[OF nl'])
  finally have e: "averageTurns P gs = toFixed P 2 (js_round (of_nat ?s / of_nat ?n))" .
  obtain v where v: "js_round (of_nat ?s / of_nat ?n) = Fin v" "0 \<le> v" "v \<le> 2 * 6"
    using js_round_bound[of "of_nat ?s / of_nat ?n" 6] q pow2_1024_big by auto
  have "fixed_decimal 2 (toFixed P 2 (Fin v))"
    by (rule toFixed_fixed_decimal) (use v in auto)
  then show ?thesis by (simp add: e v(1))
qed

lemma example_quotient: "js_div (num 4) (num 6) = Fin (6004799503160661 / 9007199254740992)"
proof -
  have n: "num 4 = Fin 4" "num 6 = Fin 6" using num_exact[of 4] num_exact[of 6] by simp_all
  have "js_round (2 / 3) = Fin (of_int 6004799503160661 * pow2 (- 53))"
    by (rule js_round_eval[where e = "- 1"]) (simp_all add: pow2_def)
  then show ?thesis by (simp add: n pow2_def)
qed

lemma example_percentage:
  "js_mul (js_div (num 4) (num 6)) (num 100) = Fin (4691249611844266 / 70368744177664)"
proof -
  have n: "num 100 = Fin 100" using num_exact[of 100] by simp
  have "js_round (6004799503160661 / 9007199254740992 * 100)
          = Fin (of_int 4691249611844266 * pow2 (- 46))"
    by (rule js_round_eval[where e = 6]) (simp_all add: pow2_def)
  then show ?thesis by (simp add: example_quotient n pow2_def)
qed

lemma example_winPercentage: "winPercentage example_platform example_games = ''66.67%''"
proof -
  have t: "totalGames example_games = 6" by (simp add: totalGames_def example_games_def)
  have w: "totalWins example_games = 4"
    by (simp add: totalWins_def winningGames_def example_games_def example_game_def)
  have s: "show_nat 6667 = ''6667''" by simp
  have "toFixed example_platform 2 (Fin (4691249611844266 / 70368744177664)) = ''66.67''"
    by (subst toFixed_eval[where n = 6667 and m = "''6667''"]) (simp_all add: s)
  then show ?thesis
    by (simp add: winPercentage_def t w Let_def example_percentage)
qed

lemma example_averageTurns: "averageTurns example_platform example_games = ''3.50''"
proof -
  have w: "totalWins example_games = 4"
    by (simp add: totalWins_def winningGames_def example_games_def example_game_def)
  have c: "wins_turns example_games = 14"
    by (simp add: wins_turns_def example_games_def example_game_def)
  have n: "num 4 = Fin 4" using num_exact[of 4] by simp
  have "js_round (7 / 2) = Fin (of_int 7881299347898368 * pow2 (- 51))"
    by (rule js_round_eval[where e = 1]) (simp_all add: pow2_def)
  then have d: "js_round (7 / 2) = Fin (7 / 2)" by (simp add: pow2_def)
  have s: "show_nat 350 = ''350''" by simp
  have f: "toFixed example_platform 2 (Fin (7 / 2)) = ''3.50''"
    by (subst toFixed_eval[where n = 350 and m = "''350''"]) (simp_all add: s)
  have "averageTurns example_platform example_games
      = toFixed example_platform 2 (js_div (Fin (of_nat 14)) (num 4))"
    using averageTurns_exact[of example_games example_platform] w c by simp
  then show ?thesis by (simp add: n d f)
qed

text \<open>
  \<^bold>\<open>C9.\<close> The summary statistics never show the result of a division by zero. With no
  games \<open>winPercentage\<close> is the string \<open>0.00%\<close>, where the unguarded quotient would
  print \<open>NaN%\<close>; with no won game \<open>averageTurns\<close> is \<open>N/A\<close>, where the unguarded
  quotient would print \<open>NaN\<close>. In every other case the result is a finite decimal
  string, digits with a point before the last two: for \<open>winPercentage\<close> on every array
  (an array has fewer than \<open>2^32\<close> elements), for \<open>averageTurns\<close> on every array whose
  won games have a row index of the declared type.
\<close>

theorem statistics_guarded:
  "winPercentage P [] = ''0.00%''
   \<and> toFixed P 2 (js_mul (js_div (num 0) (num 0)) (num 100)) @ ''%'' = ''NaN%''
   \<and> (totalWins gs = 0 \<longrightarrow> averageTurns P gs = ''N/A'')
   \<and> toFixed P 2 (js_div (Fin 0) (num 0)) = ''NaN''
   \<and> (gs \<noteq> [] \<and> length gs < 2 ^ 32 \<longrightarrow>
        (\<exists>s. winPercentage P gs = s @ ''%'' \<and> fixed_decimal 2 s))
   \<and> (totalWins gs \<noteq> 0 \<and> length gs < 2 ^ 32
        \<and> (\<forall>g\<in>set gs. status (game_data g) = WIN \<longrightarrow> row_index_typed g) \<longrightarrow>
        fixed_decimal 2 (averageTurns P gs))"
proof -
  have a: "winPercentage P [] = ''0.00%''" by (simp add: winPercentage_def totalGames_def)
  have b: "totalWins gs = 0 \<longrightarrow> averageTurns P gs = ''N/A''" by (simp add: averageTurns_def)
  show ?thesis
    using a b nan_percentage nan_average winPercentage_decimal averageTurns_decimal
    by blast
qed

theorem statistics_guarded_witness:
  "totalWins [example_game ''2024-02-29'' FAIL 6] = 0
   \<and> averageTurns example_platform [example_game ''2024-02-29'' FAIL 6] = ''N/A''
   \<and> example_games \<noteq> [] \<and> length example_games < 2 ^ 32
   \<and> (\<exists>s. winPercentage example_platform example_games = s @ ''%'' \<and> fixed_decimal 2 s)
   \<and> winPercentage example_platform example_games = ''66.67%''
   \<and> totalWins example_games \<noteq> 0
   \<and> list_all row_index_typed (winningGames example_games)
   \<and> fixed_decimal 2 (averageTurns example_platform example_games)
   \<and> averageTurns example_platform example_games = ''3.50''"
proof -
  have h1: "totalWins [example_game ''2024-02-29'' FAIL 6] = 0"
    by (simp add: totalWins_def winningGames_def example_game_def)
  have h2: "example_games \<noteq> [] \<and> length example_games < 2 ^ 32"
    by (simp add: example_games_def)
  have h3: "totalWins example_games \<noteq> 0"
    by (simp add: totalWins_def winningGames_def example_games_def example_game_def)
  have h4: "list_all row_index_typed (winningGames example_games)"
    by (simp add: winningGames_def example_games_def example_game_def row_index_typed_def)
  from statistics_guarded[of example_platform "[example_game ''2024-02-29'' FAIL 6]"] h1
  have c1: "averageTurns example_platform [example_game ''2024-02-29'' FAIL 6] = ''N/A''"
    by blast
  from statistics_guarded[of example_platform example_games] h2 h3 example_games_typed
  have c2: "\<exists>s. winPercentage example_platform example_games = s @ ''%'' \<and> fixed_decimal 2 s"
    and c3: "fixed_decimal 2 (averageTurns example_platform example_games)"
    by blast+
  from h1 h2 h3 h4 c1 c2 c3 example_winPercentage example_averageTurns
  show ?thesis by blast
qed



section \<open>The chart and the table\<close>










lemma chart_data_points:
  "map (\<lambda>game. if status (game_data game) = WIN then currentRowIndex (game_data game) else 7)
       (filter is_finished xs) = concat (map chart_points_of xs)"
  by (induction xs) (auto simp: is_finished_def split: GameStatus.splits)

lemma chart_points_range:
  "\<forall>g\<in>set xs. status (game_data g) = WIN \<longrightarrow> row_index_typed g \<Longrightarrow>
   \<forall>y\<in>set (concat (map chart_points_of xs)). 1 \<le> y \<and> y \<le> 7"
  by (induction xs) (auto simp: row_index_typed_def split: GameStatus.splits)

text \<open>
  \<^bold>\<open>C8.\<close> The chart has one dataset. Going through the reversed list, a won game
  contributes its row index, a lost game contributes 7 and an unfinished game
  contributes nothing; with row indices of the declared type on the won games every
  point lies between 1 and 7. The y axis runs from 1 to 7 and shows the value 7 as
  \<open>FAIL\<close>.
\<close>

theorem chart_points_in_range:
  assumes "\<forall>g\<in>set gs. status (game_data g) = WIN \<longrightarrow> row_index_typed g"
  shows "\<exists>ds. datasets (chartData P gs) = [ds]
              \<and> data ds = concat (map chart_points_of (rev gs))
              \<and> (\<forall>y\<in>set (data ds). 1 \<le> y \<and> y \<le> 7)
              \<and> y_min chartOptions_y = 1 \<and> y_max chartOptions_y = 7
              \<and> y_tick_callback chartOptions_y 7 = TickText ''FAIL''"
proof -
  have t: "\<forall>g\<in>set (rev gs). status (game_data g) = WIN \<longrightarrow> row_index_typed g"
    using assms by simp
  show ?thesis
    using chart_points_range[OF t]
    by (simp add: chartData_def Let_def chart_data_points chartOptions_y_def)
qed

theorem chart_points_in_range_witness:
  "list_all row_index_typed (winningGames example_games)
   \<and> map data (datasets (chartData example_platform example_games)) = [[2, 5, 3, 7, 4]]
   \<and> list_all (\<lambda>y. 1 \<le> y \<and> y \<le> 7)
        (concat (map data (datasets (chartData example_platform example_games))))"
proof -
  have h4: "list_all row_index_typed (winningGames example_games)"
    by (simp add: winningGames_def example_games_def example_game_def row_index_typed_def)
  from chart_points_in_range[OF example_games_typed, of example_platform]
  obtain ds where ds: "datasets (chartData example_platform example_games) = [ds]"
    "data ds = concat (map chart_points_of (rev example_games))"
    "\<forall>y\<in>set (data ds). 1 \<le> y \<and> y \<le> 7"
    by blast
  have v: "concat (map chart_points_of (rev example_games)) = [2, 5, 3, 7, 4]"
    by (simp add: example_games_def example_game_def)
  from ds v h4 show ?thesis by (simp add: list_all_iff)
qed

lemma differs_in_progress_row_onlyD:
  assumes "differs_in_progress_row_only g g'"
  shows "status (game_data g') = status (game_data g)"
    and "hardMode (game_data g') = hardMode (game_data g)"
    and "status (game_data g) \<noteq> IN_PROGRESS \<Longrightarrow> g' = g"
proof -
  let ?h = "g\<lparr> game_data := (game_data g)\<lparr> currentRowIndex := currentRowIndex (game_data g') \<rparr> \<rparr>"
  have e: "g' = ?h \<or> g' = g"
    using assms by (simp add: differs_in_progress_row_only_def split: if_splits)
  have "status (game_data ?h) = status (game_data g)" by simp
  then show "status (game_data g') = status (game_data g)" using e by metis
  have "hardMode (game_data ?h) = hardMode (game_data g)" by simp
  then show "hardMode (game_data g') = hardMode (game_data g)" using e by metis
  show "status (game_data g) \<noteq> IN_PROGRESS \<Longrightarrow> g' = g"
    using assms by (simp add: differs_in_progress_row_only_def)
qed

lemma filter_finished_rel:
  "list_all2 differs_in_progress_row_only gs gs' \<Longrightarrow>
   filter is_finished gs' = filter is_finished gs"
proof (induction rule: list_all2_induct)
  case Nil
  then show ?case by simp
next
  case (Cons x xs y ys)
  from differs_in_progress_row_onlyD[OF Cons.hyps(1)] Cons.IH
  show ?case by (cases "status (game_data x) = IN_PROGRESS") (auto simp: is_finished_def)
qed

lemma filter_win_rel:
  "list_all2 differs_in_progress_row_only gs gs' \<Longrightarrow> winningGames gs' = winningGames gs"
  unfolding winningGames_def
proof (induction rule: list_all2_induct)
  case Nil
  then show ?case by simp
next
  case (Cons x xs y ys)
  from differs_in_progress_row_onlyD[OF Cons.hyps(1)] Cons.IH
  show ?case by (cases "status (game_data x) = IN_PROGRESS") auto
qed

lemma turns_cell_rel:
  assumes "differs_in_progress_row_only g g'"
  shows "turns_cell P g' = turns_cell P g"
proof (cases "status (game_data g) = IN_PROGRESS")
  case True
  then show ?thesis
    using differs_in_progress_row_onlyD(1,2)[OF assms] by (simp add: turns_cell_def)
next
  case False
  then show ?thesis using differs_in_progress_row_onlyD(3)[OF assms] by simp
qed

text \<open>
  \<^bold>\<open>C4.\<close> Nothing that is shown reads the row index of an unfinished game: two lists
  that differ only in the \<open>currentRowIndex\<close> of records whose status is
  \<open>IN_PROGRESS\<close> give the same number of games, win percentage, average, chart and
  Turns cells.
\<close>

theorem in_progress_row_unread:
  assumes "list_all2 differs_in_progress_row_only gs gs'"
  shows "totalGames gs' = totalGames gs
         \<and> winPercentage P gs' = winPercentage P gs
         \<and> averageTurns P gs' = averageTurns P gs
         \<and> chartData P gs' = chartData P gs
         \<and> map (turns_cell P) gs' = map (turns_cell P) gs"
proof -
  have l: "length gs' = length gs" using assms by (simp add: list_all2_lengthD)
  have w: "winningGames gs' = winningGames gs" by (rule filter_win_rel[OF assms])
  have f: "filter is_finished (rev gs') = filter is_finished (rev gs)"
    using filter_finished_rel[OF assms] by (simp add: rev_filter[symmetric])
  have c: "map (turns_cell P) gs' = map (turns_cell P) gs"
    using assms by (induction rule: list_all2_induct) (auto simp: turns_cell_rel)
  show ?thesis
    using l w f c
    by (simp add: totalGames_def winPercentage_def averageTurns_def totalWins_def chartData_def)
qed

theorem in_progress_row_unread_witness:
  "list_all2 differs_in_progress_row_only example_games
     (example_games[1 := example_game ''2024-03-01'' IN_PROGRESS 5])
   \<and> example_games[1 := example_game ''2024-03-01'' IN_PROGRESS 5] \<noteq> example_games
   \<and> averageTurns example_platform (example_games[1 := example_game ''2024-03-01'' IN_PROGRESS 5])
       = averageTurns example_platform example_games
   \<and> chartData example_platform (example_games[1 := example_game ''2024-03-01'' IN_PROGRESS 5])
       = chartData example_platform example_games
   \<and> map (turns_cell example_platform)
        (example_games[1 := example_game ''2024-03-01'' IN_PROGRESS 5])
       = map (turns_cell example_platform) example_games"
proof -
  have r: "list_all2 differs_in_progress_row_only example_games
     (example_games[1 := example_game ''2024-03-01'' IN_PROGRESS 5])"
    by (simp add: example_games_def example_game_def differs_in_progress_row_only_def)
  have n: "example_games[1 := example_game ''2024-03-01'' IN_PROGRESS 5] \<noteq> example_games"
    by (simp add: example_games_def example_game_def)
  from in_progress_row_unread[OF r, of example_platform] r n show ?thesis by blast
qed

section \<open>The games array is not changed\<close>

lemma winningGames_st_eq:
  "winningGames_st a st = (length st, st @ [winningGames (st ! a)])"
  by (simp add: winningGames_st_def winningGames_def new_array_def)

lemma totalWins_st_eq:
  "totalWins_st a st = (totalWins (st ! a), st @ [winningGames (st ! a)])"
  by (simp add: totalWins_st_def winningGames_st_eq totalWins_def)

lemma totalGames_st_eq: "totalGames_st a st = (totalGames (st ! a), st)"
  by (simp add: totalGames_st_def totalGames_def)

lemma nth_old: "a < length st \<Longrightarrow> (st @ ys) ! a = st ! a"
  by (simp add: nth_append)

lemma winPercentage_st_eq:
  assumes "a < length st"
  shows "winPercentage_st P a st =
           (winPercentage P (st ! a),
            if totalGames (st ! a) = 0 then st else st @ [winningGames (st ! a)])"
  using assms
  by (simp add: winPercentage_st_def totalGames_st_eq totalWins_st_eq winPercentage_def
      Let_def nth_old)

lemma averageTurns_st_eq:
  assumes "a < length st"
  shows "averageTurns_st P a st =
           (averageTurns P (st ! a),
            if totalWins (st ! a) = 0 then st @ [winningGames (st ! a)]
            else st @ [winningGames (st ! a), winningGames (st ! a), winningGames (st ! a)])"
  using assms
  by (simp add: averageTurns_st_def totalWins_st_eq winningGames_st_eq averageTurns_def
      Let_def nth_old nth_append)

lemma chartData_st_eq:
  assumes "a < length st"
  shows "chartData_st P a st =
           (chartData P (st ! a),
            st @ [rev (st ! a), filter is_finished (rev (st ! a))])"
  using assms
  by (simp add: chartData_st_def chartData_def new_array_def Array_reverse_def Let_def
      nth_append)

lemma downloadGames_st_eq: "downloadGames_st P a st = (downloadGames P (st ! a), st)"
  by (simp add: downloadGames_st_def downloadGames_def Let_def)

text \<open>
  The store tells the two apart: reversing the array of \<open>games.value\<close> itself would
  not keep it, unless it reads the same in both directions.
\<close>

lemma reverse_in_place_changes:
  assumes "a < length st" and "rev (st ! a) \<noteq> st ! a"
  shows "\<not> old_arrays_kept st (snd (Array_reverse a st))"
proof
  assume "old_arrays_kept st (snd (Array_reverse a st))"
  then have "st[a := rev (st ! a)] = st"
    by (simp add: old_arrays_kept_def Array_reverse_def)
  then have "st[a := rev (st ! a)] ! a = st ! a" by simp
  then show False using assms by simp
qed

text \<open>
  \<^bold>\<open>C5.\<close> Evaluating \<open>totalGames\<close>, \<open>winningGames\<close>, \<open>winPercentage\<close>,
  \<open>averageTurns\<close>, \<open>chartData\<close> or \<open>downloadGames\<close> leaves every array that existed
  before as it was, the array of \<open>games.value\<close> among them, with its records and their
  order; each result is the one the function of the list gives. The array that
  \<open>chartData\<close> reverses is the copy it allocated first.
\<close>

theorem presentation_leaves_games_unchanged:
  assumes "games_ref < length st"
  shows "fst (totalGames_st games_ref st) = totalGames (st ! games_ref)
         \<and> old_arrays_kept st (snd (totalGames_st games_ref st))
         \<and> snd (winningGames_st games_ref st) ! fst (winningGames_st games_ref st)
             = winningGames (st ! games_ref)
         \<and> old_arrays_kept st (snd (winningGames_st games_ref st))
         \<and> fst (winPercentage_st P games_ref st) = winPercentage P (st ! games_ref)
         \<and> old_arrays_kept st (snd (winPercentage_st P games_ref st))
         \<and> fst (averageTurns_st P games_ref st) = averageTurns P (st ! games_ref)
         \<and> old_arrays_kept st (snd (averageTurns_st P games_ref st))
         \<and> fst (chartData_st P games_ref st) = chartData P (st ! games_ref)
         \<and> old_arrays_kept st (snd (chartData_st P games_ref st))
         \<and> snd (chartData_st P games_ref st) ! length st = rev (st ! games_ref)
         \<and> snd (chartData_st P games_ref st) ! games_ref = st ! games_ref
         \<and> fst (downloadGames_st P games_ref st) = downloadGames P (st ! games_ref)
         \<and> snd (downloadGames_st P games_ref st) = st"
  using assms
  by (simp add: totalGames_st_eq winningGames_st_eq winPercentage_st_eq averageTurns_st_eq
      chartData_st_eq downloadGames_st_eq old_arrays_kept_def nth_append)

theorem presentation_leaves_games_unchanged_witness:
  "(0::nat) < length [example_games]
   \<and> snd (chartData_st example_platform 0 [example_games]) ! 0 = example_games
   \<and> snd (chartData_st example_platform 0 [example_games]) ! 1 = rev example_games
   \<and> rev example_games \<noteq> example_games
   \<and> old_arrays_kept [example_games] (snd (averageTurns_st example_platform 0 [example_games]))"
proof -
  have h: "(0::nat) < length [example_games]" by simp
  have n: "rev example_games \<noteq> example_games"
    by (simp add: example_games_def example_game_def)
  from presentation_leaves_games_unchanged[OF h, of example_platform] h n
  show ?thesis by simp
qed

section \<open>Fetching and syncing\<close>





lemma fetchGames_settled:
  "fetchGames (Inr b) s
     = s\<lparr> games := get_prop b ''games'', lastSynced := get_prop b ''last_synced_at'',
          userId := get_prop b ''user_id'', loading := False \<rparr>"
  by (simp add: fetchGames_def fetchGames_begin_def fetchGames_settle_def)

text \<open>
  \<^bold>\<open>C2\<close> (as the code has it). \<open>fetchGames\<close> reads the properties \<open>games\<close>,
  \<open>last_synced_at\<close> and \<open>user_id\<close> of the response body into \<open>games\<close>,
  \<open>lastSynced\<close> and \<open>userId\<close> and clears \<open>loading\<close>. It reads nothing else: two
  bodies that agree on these three properties leave the same state. This is the state
  of the page once the request made on mounting has settled. A failed request only
  clears \<open>loading\<close>.
\<close>

theorem fetchGames_reads_fields:
  "fetchGames (Inr (b(''games'' \<mapsto> g, ''last_synced_at'' \<mapsto> t, ''user_id'' \<mapsto> u))) s
     = s\<lparr> games := g, lastSynced := t, userId := u, loading := False \<rparr>
   \<and> games (fetchGames (Inr b) s) = get_prop b ''games''
   \<and> lastSynced (fetchGames (Inr b) s) = get_prop b ''last_synced_at''
   \<and> userId (fetchGames (Inr b) s) = get_prop b ''user_id''
   \<and> loading (fetchGames (Inr b) s) = False
   \<and> syncStatus (fetchGames (Inr b) s) = syncStatus s
   \<and> (b ''games'' = b' ''games'' \<and> b ''last_synced_at'' = b' ''last_synced_at''
        \<and> b ''user_id'' = b' ''user_id'' \<longrightarrow>
        fetchGames (Inr b) s = fetchGames (Inr b') s)
   \<and> app (run P [Mounted, FetchSettled (Inr b)])
       = initial_App\<lparr> games := get_prop b ''games'',
                       lastSynced := get_prop b ''last_synced_at'',
                       userId := get_prop b ''user_id'', loading := False \<rparr>
   \<and> fetchGames (Inl e) s = s\<lparr> loading := False \<rparr>"
proof -
  have named: "fetchGames (Inr (b(''games'' \<mapsto> g, ''last_synced_at'' \<mapsto> t, ''user_id'' \<mapsto> u))) s
     = s\<lparr> games := g, lastSynced := t, userId := u, loading := False \<rparr>"
    by (simp add: fetchGames_settled get_prop_def)
  have same: "b ''games'' = b' ''games'' \<and> b ''last_synced_at'' = b' ''last_synced_at''
        \<and> b ''user_id'' = b' ''user_id'' \<longrightarrow>
        fetchGames (Inr b) s = fetchGames (Inr b') s"
    by (simp add: fetchGames_settled get_prop_def)
  have mounted: "app (run P [Mounted, FetchSettled (Inr b)])
       = initial_App\<lparr> games := get_prop b ''games'',
                       lastSynced := get_prop b ''last_synced_at'',
                       userId := get_prop b ''user_id'', loading := False \<rparr>"
    by (simp add: run_def initial_Page_def fetchGames_begin_def fetchGames_settle_def)
  have failed: "fetchGames (Inl e) s = s\<lparr> loading := False \<rparr>"
    by (simp add: fetchGames_def fetchGames_begin_def fetchGames_settle_def)
  show ?thesis using named same mounted failed by (simp add: fetchGames_settled)
qed

theorem fetchGames_reads_fields_witness:
  "fetchGames (Inr [''games'' \<mapsto> JSGames example_games,
                    ''last_synced_at'' \<mapsto> JSString ''2024-03-02T08:00:00Z'',
                    ''user_id'' \<mapsto> JSString ''u1'',
                    ''lastSyncedAt'' \<mapsto> JSNull]) initial_App
     = fetchGames (Inr [''games'' \<mapsto> JSGames example_games,
                        ''last_synced_at'' \<mapsto> JSString ''2024-03-02T08:00:00Z'',
                        ''user_id'' \<mapsto> JSString ''u1'']) initial_App
   \<and> lastSynced (fetchGames (Inr [''games'' \<mapsto> JSGames example_games,
                    ''last_synced_at'' \<mapsto> JSString ''2024-03-02T08:00:00Z'',
                    ''user_id'' \<mapsto> JSString ''u1'',
                    ''lastSyncedAt'' \<mapsto> JSNull]) initial_App)
       = JSString ''2024-03-02T08:00:00Z''"
proof -
  let ?b = "[''games'' \<mapsto> JSGames example_games,
             ''last_synced_at'' \<mapsto> JSString ''2024-03-02T08:00:00Z'',
             ''user_id'' \<mapsto> JSString ''u1'',
             ''lastSyncedAt'' \<mapsto> JSNull]"
  let ?b' = "[''games'' \<mapsto> JSGames example_games,
              ''last_synced_at'' \<mapsto> JSString ''2024-03-02T08:00:00Z'',
              ''user_id'' \<mapsto> JSString ''u1'']"
  have h: "?b ''games'' = ?b' ''games'' \<and> ?b ''last_synced_at'' = ?b' ''last_synced_at''
        \<and> ?b ''user_id'' = ?b' ''user_id''"
    by simp
  note t = fetchGames_reads_fields[of ?b _ _ _ initial_App ?b']
  from t h have e: "fetchGames (Inr ?b) initial_App = fetchGames (Inr ?b') initial_App"
    by blast
  from t have l: "lastSynced (fetchGames (Inr ?b) initial_App) = get_prop ?b ''last_synced_at''"
    by blast
  from e l show ?thesis by (simp add: get_prop_def)
qed

text \<open>
  \<^bold>\<open>C2\<close>, as stated, fails: from a body with exactly the fields \<open>games\<close>,
  \<open>lastSyncedAt\<close> and \<open>userId\<close> the page takes the games, but its last-synced
  timestamp and its user id become \<open>undefined\<close>.
\<close>

theorem fetch_field_names_counterexample:
  "dom [''games'' \<mapsto> JSGames example_games,
        ''lastSyncedAt'' \<mapsto> JSString ''2024-03-02T08:00:00Z'',
        ''userId'' \<mapsto> JSString ''u1''] = {''games'', ''lastSyncedAt'', ''userId''}
   \<and> games (fetchGames (Inr [''games'' \<mapsto> JSGames example_games,
        ''lastSyncedAt'' \<mapsto> JSString ''2024-03-02T08:00:00Z'',
        ''userId'' \<mapsto> JSString ''u1'']) initial_App) = JSGames example_games
   \<and> lastSynced (fetchGames (Inr [''games'' \<mapsto> JSGames example_games,
        ''lastSyncedAt'' \<mapsto> JSString ''2024-03-02T08:00:00Z'',
        ''userId'' \<mapsto> JSString ''u1'']) initial_App) = JSUndefined
   \<and> userId (fetchGames (Inr [''games'' \<mapsto> JSGames example_games,
        ''lastSyncedAt'' \<mapsto> JSString ''2024-03-02T08:00:00Z'',
        ''userId'' \<mapsto> JSString ''u1'']) initial_App) = JSUndefined"
  by (auto simp: fetchGames_def fetchGames_begin_def fetchGames_settle_def get_prop_def
      initial_App_def)






section \<open>The export holds every record\<close>






end
